theory Spec2Isabelle
  imports
    Main
    "HOL-Library.Multiset"
    "HOL-Library.Char_ord"
    "HOL-Library.List_Lexorder"
    "HOL-Library.Word"
begin

section \<open>The forwarding rule syncer of kubemci\<close>

text \<open>
  A shallow embedding of \<^verbatim>\<open>app/kubemci/pkg/gcp/forwardingrule/forwardingrulesyncer.go\<close>.
  Go strings are byte strings (\<^typ>\<open>string\<close>), \<^verbatim>\<open>sort.Strings\<close> orders them byte by
  byte, which is the lexicographic order of \<^typ>\<open>char list\<close> over the order of characters
  by their code. Output on the terminal and in the log (\<^verbatim>\<open>fmt.Println\<close>, \<^verbatim>\<open>glog\<close>) is
  not part of the model.
\<close>

subsection \<open>Errors\<close>

text \<open>
  A Go \<^verbatim>\<open>error\<close> value is either a \<^verbatim>\<open>*googleapi.Error\<close>, of which the code reads the
  HTTP status code only, or any other error, of which it reads the text only. The second
  component of \<open>GoogleAPIError\<close> is the text its \<^verbatim>\<open>Error()\<close> method renders. A returned
  \<^verbatim>\<open>error\<close> is an \<open>error option\<close>, \<open>None\<close> for \<^verbatim>\<open>nil\<close>.
\<close>

datatype error = GoogleAPIError int string | ErrorString string

fun Error :: "error \<Rightarrow> string" where
  "Error (GoogleAPIError code text) = text"
| "Error (ErrorString text) = text"

definition StatusNotFound :: int where
  "StatusNotFound = 404"

text \<open>The two helpers of \<^verbatim>\<open>k8s.io/ingress-gce/pkg/utils\<close> that the syncer calls.\<close>

definition IsHTTPErrorCode :: "error option \<Rightarrow> int \<Rightarrow> bool" where
  "IsHTTPErrorCode err code =
     (case err of Some (GoogleAPIError c text) \<Rightarrow> c = code | _ \<Rightarrow> False)"

definition IgnoreHTTPNotFound :: "error option \<Rightarrow> error option" where
  "IgnoreHTTPNotFound err =
     (if err \<noteq> None \<and> IsHTTPErrorCode err StatusNotFound then None else err)"

subsection \<open>Data\<close>

text \<open>
  \<^verbatim>\<open>status.LoadBalancerStatus\<close>, the record that is encoded into the description of a
  forwarding rule. A Go slice of strings is a \<^typ>\<open>string list option\<close>: \<open>None\<close> is the
  \<^verbatim>\<open>nil\<close> slice, \<open>Some []\<close> a slice that is empty and not \<^verbatim>\<open>nil\<close>. The two hold the
  same elements, and code that is handed them (a codec, \<^verbatim>\<open>reflect.DeepEqual\<close>) can tell
  them apart.
\<close>

record LoadBalancerStatus =
  Description :: string
  LoadBalancerName :: string
  Clusters :: "string list option"
  IPAddress :: string

text \<open>
  The codec of package \<^verbatim>\<open>status\<close> (\<^verbatim>\<open>ToString\<close> and \<^verbatim>\<open>FromString\<close>) is a parameter of
  the model: the syncer only calls it.
\<close>

record StatusCodec =
  ToString :: "LoadBalancerStatus \<Rightarrow> error + string"
  FromString :: "string \<Rightarrow> error + LoadBalancerStatus"

text \<open>\<^verbatim>\<open>googleapi.ServerResponse\<close>; a \<^verbatim>\<open>nil\<close> header map is \<open>None\<close>.\<close>

record ServerResponse =
  HTTPStatusCode :: int
  Header :: "(string \<times> string list) list option"

definition ServerResponse_zero :: ServerResponse where
  "ServerResponse_zero = \<lparr>HTTPStatusCode = 0, Header = None\<rparr>"

text \<open>
  \<^verbatim>\<open>compute.ForwardingRule\<close>. The fields that the syncer names are fields of the record;
  the fields of the struct that it never names are kept together in \<open>Rest\<close>, of a type
  whose \<^const>\<open>default\<close> is their Go zero value (what a composite literal leaves them at).
  \<^verbatim>\<open>reflect.DeepEqual\<close> of two such structs behind non-nil pointers is equality of the
  records.
\<close>

record 'r ForwardingRule =
  CreationTimestamp :: string
  Description :: string
  IPAddress :: string
  IPProtocol :: string
  Id :: "64 word"
  Kind :: string
  LoadBalancingScheme :: string
  Name :: string
  PortRange :: string
  SelfLink :: string
  Target :: string
  ServerResponse :: ServerResponse
  Rest :: 'r

definition httpDefaultPortRange :: string where
  "httpDefaultPortRange = ''80-80''"

definition httpsDefaultPortRange :: string where
  "httpsDefaultPortRange = ''443-443''"

subsection \<open>The provider\<close>

text \<open>
  The interface \<^verbatim>\<open>ingresslb.LoadBalancers\<close>, restricted to the four methods the syncer
  calls. An implementation has a state of its own (type \<open>'s\<close>) that every call may read
  and change; a call that returns a pointer and an error returns a sum, so a call
  returns either a forwarding rule or an error (with a \<^verbatim>\<open>nil\<close> pointer and a \<^verbatim>\<open>nil\<close>
  error the syncer would dereference \<^verbatim>\<open>nil\<close>; no provider answers so). The object a
  fetch returns belongs to the caller: what the syncer assigns to it afterwards is not
  seen by the provider.
\<close>

record ('s, 'r) LoadBalancers =
  GetGlobalForwardingRule :: "string \<Rightarrow> 's \<Rightarrow> (error + 'r ForwardingRule) \<times> 's"
  CreateGlobalForwardingRule :: "'r ForwardingRule \<Rightarrow> 's \<Rightarrow> error option \<times> 's"
  DeleteGlobalForwardingRule :: "string \<Rightarrow> 's \<Rightarrow> error option \<times> 's"
  SetProxyForGlobalForwardingRule :: "string \<Rightarrow> string \<Rightarrow> 's \<Rightarrow> error option \<times> 's"

text \<open>The calls that reach the provider, in the order they are made.\<close>

datatype 'r call =
  GetCall string
| CreateCall "'r ForwardingRule"
| DeleteCall string
| SetProxyCall string string

fun mutating :: "'r call \<Rightarrow> bool" where
  "mutating (GetCall name) = False"
| "mutating (CreateCall fr) = True"
| "mutating (DeleteCall name) = True"
| "mutating (SetProxyCall name target) = True"

record ('s, 'r) world =
  provider :: 's
  calls :: "'r call list"

text \<open>\<^verbatim>\<open>namer.HttpForwardingRuleName()\<close> is a fixed string for a given namer.\<close>

record Namer =
  HttpForwardingRuleName :: string

record ('s, 'r) ForwardingRuleSyncer =
  namer :: Namer
  frp :: "('s, 'r) LoadBalancers"

definition frpGet ::
  "('s, 'r) ForwardingRuleSyncer \<Rightarrow> string \<Rightarrow> ('s, 'r) world
     \<Rightarrow> (error + 'r ForwardingRule) \<times> ('s, 'r) world" where
  "frpGet s name w =
     (case GetGlobalForwardingRule (frp s) name (provider w) of
        (r, p) \<Rightarrow> (r, \<lparr>provider = p, calls = calls w @ [GetCall name]\<rparr>))"

definition frpCreate ::
  "('s, 'r) ForwardingRuleSyncer \<Rightarrow> 'r ForwardingRule \<Rightarrow> ('s, 'r) world
     \<Rightarrow> error option \<times> ('s, 'r) world" where
  "frpCreate s fr w =
     (case CreateGlobalForwardingRule (frp s) fr (provider w) of
        (r, p) \<Rightarrow> (r, \<lparr>provider = p, calls = calls w @ [CreateCall fr]\<rparr>))"

definition frpDelete ::
  "('s, 'r) ForwardingRuleSyncer \<Rightarrow> string \<Rightarrow> ('s, 'r) world
     \<Rightarrow> error option \<times> ('s, 'r) world" where
  "frpDelete s name w =
     (case DeleteGlobalForwardingRule (frp s) name (provider w) of
        (r, p) \<Rightarrow> (r, \<lparr>provider = p, calls = calls w @ [DeleteCall name]\<rparr>))"

definition frpSetProxy ::
  "('s, 'r) ForwardingRuleSyncer \<Rightarrow> string \<Rightarrow> string \<Rightarrow> ('s, 'r) world
     \<Rightarrow> error option \<times> ('s, 'r) world" where
  "frpSetProxy s name target w =
     (case SetProxyForGlobalForwardingRule (frp s) name target (provider w) of
        (r, p) \<Rightarrow> (r, \<lparr>provider = p, calls = calls w @ [SetProxyCall name target]\<rparr>))"

subsection \<open>The syncer\<close>

text \<open>
  \<^verbatim>\<open>forwardingRuleMatches\<close> assigns to five fields of the object behind \<^verbatim>\<open>existingFR\<close>
  before it compares; the model returns the object as the call leaves it, next to the
  result. The two pointers are never the same object where the syncer calls it: the
  desired rule is allocated by \<^verbatim>\<open>desiredForwardingRule\<close>.
\<close>

definition forwardingRuleMatches ::
  "'r ForwardingRule \<Rightarrow> 'r ForwardingRule \<Rightarrow> bool \<times> 'r ForwardingRule" where
  "forwardingRuleMatches desiredFR existingFR =
     (let existingFR = existingFR\<lparr>CreationTimestamp := ''''\<rparr>;
          existingFR = existingFR\<lparr>Id := 0\<rparr>;
          existingFR = existingFR\<lparr>Kind := ''''\<rparr>;
          existingFR = existingFR\<lparr>SelfLink := ''''\<rparr>;
          existingFR = existingFR\<lparr>ServerResponse := ServerResponse_zero\<rparr>;
          equal = (existingFR = desiredFR)
      in (equal, existingFR))"

text \<open>
  \<^verbatim>\<open>sort.Strings\<close> sorts the elements of the slice it is given, in place; a \<^verbatim>\<open>nil\<close> slice
  stays \<^verbatim>\<open>nil\<close>.
\<close>

definition sortStrings :: "string list option \<Rightarrow> string list option" where
  "sortStrings a = (case a of None \<Rightarrow> None | Some xs \<Rightarrow> Some (sort xs))"

text \<open>
  \<^verbatim>\<open>desiredForwardingRule\<close> sorts the caller's slice in place: the first component of the
  result is the slice as the call leaves it.
\<close>

definition desiredForwardingRule ::
  "('s, 'r::default) ForwardingRuleSyncer \<Rightarrow> StatusCodec \<Rightarrow> string \<Rightarrow> string \<Rightarrow> string
     \<Rightarrow> string list option \<Rightarrow> string list option \<times> (error + 'r ForwardingRule)" where
  "desiredForwardingRule s codec lbName ipAddress targetProxyLink clusters =
     (let clusters = sortStrings clusters;
          status = \<lparr>LoadBalancerStatus.Description =
                      ''Http forwarding rule for kubernetes multicluster loadbalancer '' @ lbName,
                    LoadBalancerName = lbName,
                    Clusters = clusters,
                    LoadBalancerStatus.IPAddress = ipAddress\<rparr>
      in (clusters,
          case ToString codec status of
            Inl err \<Rightarrow>
              Inl (ErrorString
                (''unexpected error in generating the description for forwarding rule: ''
                   @ Error err))
          | Inr desc \<Rightarrow>
              Inr \<lparr>CreationTimestamp = '''',
                   Description = desc,
                   IPAddress = ipAddress,
                   IPProtocol = ''TCP'',
                   Id = 0,
                   Kind = '''',
                   LoadBalancingScheme = ''EXTERNAL'',
                   Name = HttpForwardingRuleName (namer s),
                   PortRange = httpDefaultPortRange,
                   SelfLink = '''',
                   Target = targetProxyLink,
                   ServerResponse = ServerResponse_zero,
                   Rest = default\<rparr>))"

definition createForwardingRule ::
  "('s, 'r) ForwardingRuleSyncer \<Rightarrow> 'r ForwardingRule \<Rightarrow> ('s, 'r) world
     \<Rightarrow> error option \<times> ('s, 'r) world" where
  "createForwardingRule s desiredFR w =
     (case frpCreate s desiredFR w of
        (Some err, w) \<Rightarrow> (Some err, w)
      | (None, w) \<Rightarrow> (None, w))"

definition updateForwardingRule ::
  "('s, 'r) ForwardingRuleSyncer \<Rightarrow> 'r ForwardingRule \<Rightarrow> 'r ForwardingRule
     \<Rightarrow> ('s, 'r) world \<Rightarrow> error option \<times> ('s, 'r) world" where
  "updateForwardingRule s existingFR desiredFR w =
     (let name = Name desiredFR in
      if IPAddress existingFR \<noteq> IPAddress desiredFR
         \<or> PortRange existingFR \<noteq> PortRange desiredFR
         \<or> IPProtocol existingFR \<noteq> IPProtocol desiredFR
         \<or> Description existingFR \<noteq> Description desiredFR
      then
        (case frpDelete s name w of
           (r, w) \<Rightarrow>
             (case IgnoreHTTPNotFound r of
                Some err \<Rightarrow>
                  (Some (ErrorString
                     (''error in deleting existing forwarding rule '' @ name @ '': ''
                        @ Error err)), w)
              | None \<Rightarrow> createForwardingRule s desiredFR w))
      else
        (case frpSetProxy s name (Target desiredFR) w of
           (Some err, w) \<Rightarrow> (Some err, w)
         | (None, w) \<Rightarrow> (None, w)))"

definition EnsureHttpForwardingRule ::
  "('s, 'r::default) ForwardingRuleSyncer \<Rightarrow> StatusCodec \<Rightarrow> string \<Rightarrow> string \<Rightarrow> string
     \<Rightarrow> string list option \<Rightarrow> bool \<Rightarrow> ('s, 'r) world
     \<Rightarrow> error option \<times> string list option \<times> ('s, 'r) world" where
  "EnsureHttpForwardingRule s codec lbName ipAddress targetProxyLink clusters forceUpdate w =
     (case desiredForwardingRule s codec lbName ipAddress targetProxyLink clusters of
        (clusters, Inl err) \<Rightarrow> (Some err, clusters, w)
      | (clusters, Inr desiredFR) \<Rightarrow>
          (let name = Name desiredFR in
           case frpGet s name w of
             (Inr existingFR, w) \<Rightarrow>
               (case forwardingRuleMatches desiredFR existingFR of
                  (True, existingFR) \<Rightarrow> (None, clusters, w)
                | (False, existingFR) \<Rightarrow>
                    if forceUpdate
                    then (case updateForwardingRule s existingFR desiredFR w of
                            (r, w) \<Rightarrow> (r, clusters, w))
                    else (Some (ErrorString
                            ''Will not overwrite Forwarding Rule without --force''),
                          clusters, w))
           | (Inl err, w) \<Rightarrow>
               (case createForwardingRule s desiredFR w of
                  (r, w) \<Rightarrow> (r, clusters, w))))"

definition DeleteForwardingRules ::
  "('s, 'r) ForwardingRuleSyncer \<Rightarrow> ('s, 'r) world \<Rightarrow> error option \<times> ('s, 'r) world" where
  "DeleteForwardingRules s w =
     (let name = HttpForwardingRuleName (namer s) in
      case frpDelete s name w of
        (Some err, w) \<Rightarrow> (Some err, w)
      | (None, w) \<Rightarrow> (None, w))"

definition GetLoadBalancerStatus ::
  "('s, 'r) ForwardingRuleSyncer \<Rightarrow> StatusCodec \<Rightarrow> string \<Rightarrow> ('s, 'r) world
     \<Rightarrow> (error + LoadBalancerStatus) \<times> ('s, 'r) world" where
  "GetLoadBalancerStatus s codec lbName w =
     (let name = HttpForwardingRuleName (namer s) in
      case frpGet s name w of
        (r, w) \<Rightarrow>
          (let err = (case r of Inl e \<Rightarrow> Some e | Inr fr \<Rightarrow> None) in
           if IsHTTPErrorCode err StatusNotFound
           then (Inl (ErrorString (''Load balancer '' @ lbName @ '' does not exist'')), w)
           else
             (case r of
                Inl e \<Rightarrow>
                  (Inl (ErrorString
                     (''error in fetching forwarding rule: '' @ Error e
                        @ ''. Cannot determine status without it.'')), w)
              | Inr fr \<Rightarrow>
                  (case FromString codec (Description fr) of
                     Inl e \<Rightarrow>
                       (Inl (ErrorString
                          (''error in parsing forwarding rule description '' @ Error e
                             @ ''. Cannot determine status without it.'')), w)
                   | Inr status \<Rightarrow> (Inr status, w)))))"

subsection \<open>Notions used to state the properties\<close>

text \<open>The five assignments at the head of \<^verbatim>\<open>forwardingRuleMatches\<close>, as one update.\<close>

definition providerAssignedCleared :: "'r ForwardingRule \<Rightarrow> 'r ForwardingRule" where
  "providerAssignedCleared fr =
     fr\<lparr>CreationTimestamp := '''', Id := 0, Kind := '''', SelfLink := '''',
        ServerResponse := ServerResponse_zero\<rparr>"


subsection \<open>A provider in memory, a codec and a syncer to run the model on\<close>

text \<open>
  The provider keeps the rules in a list, answers 404 for a name it does not hold and
  409 for a name it holds already, and assigns a time stamp, an id, a kind and a
  self-link to a rule it creates.
\<close>

definition FakeGoogleAPINotFoundErr :: error where
  "FakeGoogleAPINotFoundErr = GoogleAPIError 404 ''googleapi: got HTTP response code 404''"

definition named :: "string \<Rightarrow> 'r ForwardingRule \<Rightarrow> bool" where
  "named name fr = (Name fr = name)"

definition assignedByProvider :: "'r ForwardingRule \<Rightarrow> 'r ForwardingRule" where
  "assignedByProvider fr =
     fr\<lparr>CreationTimestamp := ''2018-01-01T00:00:00.000-08:00'', Id := 7,
        Kind := ''compute#forwardingRule'',
        SelfLink := ''global/forwardingRules/'' @ Name fr\<rparr>"

definition memGet ::
  "string \<Rightarrow> 'r ForwardingRule list \<Rightarrow> (error + 'r ForwardingRule) \<times> 'r ForwardingRule list" where
  "memGet name rules =
     (case find (named name) rules of
        None \<Rightarrow> (Inl FakeGoogleAPINotFoundErr, rules)
      | Some fr \<Rightarrow> (Inr fr, rules))"

definition memCreate ::
  "'r ForwardingRule \<Rightarrow> 'r ForwardingRule list \<Rightarrow> error option \<times> 'r ForwardingRule list" where
  "memCreate fr rules =
     (case find (named (Name fr)) rules of
        None \<Rightarrow> (None, assignedByProvider fr # rules)
      | Some old \<Rightarrow> (Some (GoogleAPIError 409 ''googleapi: got HTTP response code 409''), rules))"

definition memDelete ::
  "string \<Rightarrow> 'r ForwardingRule list \<Rightarrow> error option \<times> 'r ForwardingRule list" where
  "memDelete name rules =
     (case find (named name) rules of
        None \<Rightarrow> (Some FakeGoogleAPINotFoundErr, rules)
      | Some old \<Rightarrow> (None, filter (\<lambda>fr. \<not> named name fr) rules))"

definition memSetProxy ::
  "string \<Rightarrow> string \<Rightarrow> 'r ForwardingRule list \<Rightarrow> error option \<times> 'r ForwardingRule list" where
  "memSetProxy name target rules =
     (case find (named name) rules of
        None \<Rightarrow> (Some FakeGoogleAPINotFoundErr, rules)
      | Some old \<Rightarrow>
          (None, map (\<lambda>fr. if named name fr then fr\<lparr>Target := target\<rparr> else fr) rules))"

definition memLB :: "('r ForwardingRule list, 'r) LoadBalancers" where
  "memLB = \<lparr>GetGlobalForwardingRule = memGet,
            CreateGlobalForwardingRule = memCreate,
            DeleteGlobalForwardingRule = memDelete,
            SetProxyForGlobalForwardingRule = memSetProxy\<rparr>"

text \<open>
  The same provider, where the rule is gone by the time it is deleted and the delete
  answers with the given error.
\<close>

definition memLB_deleteAnswers :: "error \<Rightarrow> ('r ForwardingRule list, 'r) LoadBalancers" where
  "memLB_deleteAnswers e =
     memLB\<lparr>DeleteGlobalForwardingRule :=
              (\<lambda>name rules. (Some e, filter (\<lambda>fr. \<not> named name fr) rules))\<rparr>"

definition joinClusters :: "string list option \<Rightarrow> string" where
  "joinClusters a =
     (case a of
        None \<Rightarrow> ''null''
      | Some cs \<Rightarrow> ''['' @ concat (map (\<lambda>c. c @ '','') cs) @ '']'')"

text \<open>
  A codec that writes a status on one line and refuses to read the empty string. Like
  \<^verbatim>\<open>encoding/json\<close>, it writes a \<^verbatim>\<open>nil\<close> slice of clusters as \<open>null\<close> and any other slice
  between brackets.
\<close>

definition lineCodec :: StatusCodec where
  "lineCodec =
     \<lparr>ToString =
        (\<lambda>st. Inr (LoadBalancerName st @ ''|'' @ joinClusters (Clusters st) @ ''|''
                     @ LoadBalancerStatus.IPAddress st)),
      FromString =
        (\<lambda>str. if str = '''' then Inl (ErrorString ''unexpected end of JSON input'')
                else Inr \<lparr>LoadBalancerStatus.Description = str, LoadBalancerName = ''lb1'',
                          Clusters = None, LoadBalancerStatus.IPAddress = ''''\<rparr>)\<rparr>"

definition lb1Syncer :: "(unit ForwardingRule list, unit) ForwardingRuleSyncer" where
  "lb1Syncer = \<lparr>namer = \<lparr>HttpForwardingRuleName = ''mci1-fw--lb1''\<rparr>, frp = memLB\<rparr>"

definition lb1Syncer_deleteAnswers ::
  "error \<Rightarrow> (unit ForwardingRule list, unit) ForwardingRuleSyncer" where
  "lb1Syncer_deleteAnswers e =
     \<lparr>namer = \<lparr>HttpForwardingRuleName = ''mci1-fw--lb1''\<rparr>, frp = memLB_deleteAnswers e\<rparr>"

text \<open>
  The rule that the syncer desires for \<open>lb1\<close> at 10.0.0.5 with proxy A and clusters A
  and B, and the rule that the provider holds once it has been created.
\<close>

definition lb1Desired :: "unit ForwardingRule" where
  "lb1Desired =
     \<lparr>CreationTimestamp = '''',
      Description = ''lb1|[clusterA,clusterB,]|10.0.0.5'',
      IPAddress = ''10.0.0.5'',
      IPProtocol = ''TCP'',
      Id = 0,
      Kind = '''',
      LoadBalancingScheme = ''EXTERNAL'',
      Name = ''mci1-fw--lb1'',
      PortRange = ''80-80'',
      SelfLink = '''',
      Target = ''proxy-A'',
      ServerResponse = ServerResponse_zero,
      Rest = ()\<rparr>"

definition lb1Rule :: "unit ForwardingRule" where
  "lb1Rule =
     lb1Desired
       \<lparr>CreationTimestamp := ''2018-01-01T00:00:00.000-08:00'',
        Id := 7,
        Kind := ''compute#forwardingRule'',
        SelfLink := ''global/forwardingRules/mci1-fw--lb1'',
        ServerResponse := \<lparr>HTTPStatusCode = 200, Header = Some []\<rparr>\<rparr>"

definition world0 :: "'r ForwardingRule list \<Rightarrow> ('r ForwardingRule list, 'r) world" where
  "world0 rules = \<lparr>provider = rules, calls = []\<rparr>"

text \<open>The same provider with a fetch that always answers 500.\<close>

definition memLB_getFails :: "('r ForwardingRule list, 'r) LoadBalancers" where
  "memLB_getFails =
     memLB\<lparr>GetGlobalForwardingRule :=
              (\<lambda>name rules.
                 (Inl (GoogleAPIError 500 ''googleapi: got HTTP response code 500''), rules))\<rparr>"

definition lb1Syncer_getFails :: "(unit ForwardingRule list, unit) ForwardingRuleSyncer" where
  "lb1Syncer_getFails =
     \<lparr>namer = \<lparr>HttpForwardingRuleName = ''mci1-fw--lb1''\<rparr>, frp = memLB_getFails\<rparr>"

section \<open>Properties\<close>

subsection \<open>Unfolding the model\<close>

lemmas model_defs =
  EnsureHttpForwardingRule_def desiredForwardingRule_def forwardingRuleMatches_def
  updateForwardingRule_def createForwardingRule_def DeleteForwardingRules_def
  GetLoadBalancerStatus_def frpGet_def frpCreate_def frpDelete_def frpSetProxy_def
  IgnoreHTTPNotFound_def IsHTTPErrorCode_def StatusNotFound_def httpDefaultPortRange_def
  ServerResponse_zero_def providerAssignedCleared_def sortStrings_def Let_def

lemmas fixture_defs =
  lb1Syncer_def lb1Syncer_deleteAnswers_def lb1Syncer_getFails_def memLB_def
  memLB_deleteAnswers_def memLB_getFails_def memGet_def
  memCreate_def memDelete_def memSetProxy_def named_def assignedByProvider_def
  FakeGoogleAPINotFoundErr_def lineCodec_def joinClusters_def lb1Rule_def lb1Desired_def
  world0_def

lemma forwardingRuleMatches_cleared:
  "forwardingRuleMatches desiredFR existingFR =
     (providerAssignedCleared existingFR = desiredFR, providerAssignedCleared existingFR)"
  by (simp add: forwardingRuleMatches_def providerAssignedCleared_def Let_def)

lemma createForwardingRule_frpCreate: "createForwardingRule s desiredFR w = frpCreate s desiredFR w"
  by (simp add: createForwardingRule_def split: prod.splits option.splits)

lemma desiredForwardingRule_fields:
  assumes "desiredForwardingRule s codec lbName ipAddress targetProxyLink clusters = (cs, Inr d)"
  shows "cs = sortStrings clusters"
    and "Name d = HttpForwardingRuleName (namer s)"
    and "IPAddress d = ipAddress"
    and "Target d = targetProxyLink"
    and "PortRange d = ''80-80''"
    and "IPProtocol d = ''TCP''"
    and "LoadBalancingScheme d = ''EXTERNAL''"
    and "Rest d = default"
    and "providerAssignedCleared d = d"
  using assms
  by (auto simp add: desiredForwardingRule_def Let_def httpDefaultPortRange_def
        providerAssignedCleared_def split: sum.splits)

text \<open>The four ways through \<^const>\<open>EnsureHttpForwardingRule\<close> once the desired rule is built.\<close>

lemma Ensure_fetch_failed:
  assumes "desiredForwardingRule s codec lbName ipAddress targetProxyLink clusters = (cs, Inr d)"
      and "GetGlobalForwardingRule (frp s) (Name d) (provider w) = (Inl e, p)"
  shows "EnsureHttpForwardingRule s codec lbName ipAddress targetProxyLink clusters forceUpdate w
         = (fst (CreateGlobalForwardingRule (frp s) d p), cs,
            \<lparr>provider = snd (CreateGlobalForwardingRule (frp s) d p),
             calls = calls w @ [GetCall (Name d), CreateCall d]\<rparr>)"
  using assms
  by (simp add: EnsureHttpForwardingRule_def Let_def frpGet_def frpCreate_def
        createForwardingRule_frpCreate split: prod.splits)


lemma Ensure_found_differing_unforced:
  assumes "desiredForwardingRule s codec lbName ipAddress targetProxyLink clusters = (cs, Inr d)"
      and "GetGlobalForwardingRule (frp s) (Name d) (provider w) = (Inr live, p)"
      and "\<not> fst (forwardingRuleMatches d live)"
  shows "EnsureHttpForwardingRule s codec lbName ipAddress targetProxyLink clusters False w
         = (Some (ErrorString ''Will not overwrite Forwarding Rule without --force''), cs,
            \<lparr>provider = p, calls = calls w @ [GetCall (Name d)]\<rparr>)"
  using assms
  by (simp add: EnsureHttpForwardingRule_def Let_def frpGet_def forwardingRuleMatches_cleared)

lemma Ensure_found_differing_forced:
  assumes "desiredForwardingRule s codec lbName ipAddress targetProxyLink clusters = (cs, Inr d)"
      and "GetGlobalForwardingRule (frp s) (Name d) (provider w) = (Inr live, p)"
      and "\<not> fst (forwardingRuleMatches d live)"
  shows "EnsureHttpForwardingRule s codec lbName ipAddress targetProxyLink clusters True w
         = (case updateForwardingRule s (providerAssignedCleared live) d
                   \<lparr>provider = p, calls = calls w @ [GetCall (Name d)]\<rparr> of
              (r, w') \<Rightarrow> (r, cs, w'))"
  using assms
  by (simp add: EnsureHttpForwardingRule_def Let_def frpGet_def forwardingRuleMatches_cleared)

text \<open>The two ways through \<^const>\<open>updateForwardingRule\<close>.\<close>

lemma update_retargets:
  assumes "IPAddress existingFR = IPAddress d" and "PortRange existingFR = PortRange d"
      and "IPProtocol existingFR = IPProtocol d" and "Description existingFR = Description d"
  shows "updateForwardingRule s existingFR d w
         = (fst (SetProxyForGlobalForwardingRule (frp s) (Name d) (Target d) (provider w)),
            \<lparr>provider = snd (SetProxyForGlobalForwardingRule (frp s) (Name d) (Target d) (provider w)),
             calls = calls w @ [SetProxyCall (Name d) (Target d)]\<rparr>)"
  using assms
  by (simp add: updateForwardingRule_def Let_def frpSetProxy_def split: prod.splits option.splits)

lemma update_recreates:
  assumes "IPAddress existingFR \<noteq> IPAddress d \<or> PortRange existingFR \<noteq> PortRange d
           \<or> IPProtocol existingFR \<noteq> IPProtocol d \<or> Description existingFR \<noteq> Description d"
      and "DeleteGlobalForwardingRule (frp s) (Name d) (provider w) = (r, p)"
  shows "updateForwardingRule s existingFR d w
         = (case IgnoreHTTPNotFound r of
              Some err \<Rightarrow>
                (Some (ErrorString (''error in deleting existing forwarding rule '' @ Name d
                                     @ '': '' @ Error err)),
                 \<lparr>provider = p, calls = calls w @ [DeleteCall (Name d)]\<rparr>)
            | None \<Rightarrow>
                (fst (CreateGlobalForwardingRule (frp s) d p),
                 \<lparr>provider = snd (CreateGlobalForwardingRule (frp s) d p),
                  calls = calls w @ [DeleteCall (Name d), CreateCall d]\<rparr>))"
  using assms
  by (auto simp add: updateForwardingRule_def Let_def frpDelete_def frpCreate_def
        createForwardingRule_frpCreate split: prod.splits option.splits)

lemma IgnoreHTTPNotFound_cases:
  "IgnoreHTTPNotFound None = None"
  "IgnoreHTTPNotFound (Some (GoogleAPIError code text)) =
     (if code = 404 then None else Some (GoogleAPIError code text))"
  "IgnoreHTTPNotFound (Some (ErrorString text)) = Some (ErrorString text)"
  by (simp_all add: IgnoreHTTPNotFound_def IsHTTPErrorCode_def StatusNotFound_def)

lemma sort_of_permutation:
  fixes xs ys :: "string list"
  assumes "mset xs = mset ys"
  shows "sort xs = sort ys"
  using assms by (metis properties_for_sort sorted_sort mset_sort)

lemma sortStrings_of_permutation:
  assumes "map_option mset clusters1 = map_option mset clusters2"
  shows "sortStrings clusters1 = sortStrings clusters2"
  using assms
  by (cases clusters1; cases clusters2) (auto simp add: sortStrings_def intro: sort_of_permutation)


subsection \<open>The equality comparator\<close>

text \<open>
  Claim C6. \<^const>\<open>forwardingRuleMatches\<close> returns true exactly when the live rule, with
  its creation time stamp, id, kind, self-link and server response set to their zero
  values, is equal to the desired rule in every field. Field by field: the description,
  the IP address, the protocol, the scheme, the name, the port range, the target and the
  remaining fields agree, and the desired rule has the five provider-assigned fields at
  their zero values. A difference in any of these fields, the description among them,
  makes the result false.
\<close>

theorem forwardingRuleMatches_iff_equal_after_clearing:
  "fst (forwardingRuleMatches desiredFR existingFR) =
     (existingFR\<lparr>CreationTimestamp := '''', Id := 0, Kind := '''', SelfLink := '''',
                 ServerResponse := \<lparr>HTTPStatusCode = 0, Header = None\<rparr>\<rparr> = desiredFR)
   \<and> fst (forwardingRuleMatches desiredFR existingFR) =
     (Description existingFR = Description desiredFR
      \<and> IPAddress existingFR = IPAddress desiredFR
      \<and> IPProtocol existingFR = IPProtocol desiredFR
      \<and> LoadBalancingScheme existingFR = LoadBalancingScheme desiredFR
      \<and> Name existingFR = Name desiredFR
      \<and> PortRange existingFR = PortRange desiredFR
      \<and> Target existingFR = Target desiredFR
      \<and> Rest existingFR = Rest desiredFR
      \<and> CreationTimestamp desiredFR = ''''
      \<and> Id desiredFR = 0
      \<and> Kind desiredFR = ''''
      \<and> SelfLink desiredFR = ''''
      \<and> ServerResponse desiredFR = \<lparr>HTTPStatusCode = 0, Header = None\<rparr>)"
proof (intro conjI)
  show "fst (forwardingRuleMatches desiredFR existingFR) =
     (existingFR\<lparr>CreationTimestamp := '''', Id := 0, Kind := '''', SelfLink := '''',
                 ServerResponse := \<lparr>HTTPStatusCode = 0, Header = None\<rparr>\<rparr> = desiredFR)"
    by (simp add: forwardingRuleMatches_def ServerResponse_zero_def Let_def)
next
  show "fst (forwardingRuleMatches desiredFR existingFR) =
     (Description existingFR = Description desiredFR
      \<and> IPAddress existingFR = IPAddress desiredFR
      \<and> IPProtocol existingFR = IPProtocol desiredFR
      \<and> LoadBalancingScheme existingFR = LoadBalancingScheme desiredFR
      \<and> Name existingFR = Name desiredFR
      \<and> PortRange existingFR = PortRange desiredFR
      \<and> Target existingFR = Target desiredFR
      \<and> Rest existingFR = Rest desiredFR
      \<and> CreationTimestamp desiredFR = ''''
      \<and> Id desiredFR = 0
      \<and> Kind desiredFR = ''''
      \<and> SelfLink desiredFR = ''''
      \<and> ServerResponse desiredFR = \<lparr>HTTPStatusCode = 0, Header = None\<rparr>)"
    by (cases desiredFR, cases existingFR)
       (auto simp add: forwardingRuleMatches_def ServerResponse_zero_def Let_def)
qed

text \<open>
  Claim C10. \<^const>\<open>forwardingRuleMatches\<close> changes the live rule it is given: whatever
  the result of the comparison, the object is left with its creation time stamp, id,
  kind, self-link and server response at their zero values and with every other field
  as it was. A caller that holds the object sees the five fields cleared after the call.
\<close>

theorem forwardingRuleMatches_clears_existing:
  "snd (forwardingRuleMatches desiredFR existingFR) =
     \<lparr>CreationTimestamp = '''',
      Description = Description existingFR,
      IPAddress = IPAddress existingFR,
      IPProtocol = IPProtocol existingFR,
      Id = 0,
      Kind = '''',
      LoadBalancingScheme = LoadBalancingScheme existingFR,
      Name = Name existingFR,
      PortRange = PortRange existingFR,
      SelfLink = '''',
      Target = Target existingFR,
      ServerResponse = \<lparr>HTTPStatusCode = 0, Header = None\<rparr>,
      Rest = Rest existingFR\<rparr>"
  by (cases existingFR) (simp add: forwardingRuleMatches_def ServerResponse_zero_def Let_def)

subsection \<open>The desired rule\<close>

text \<open>
  Claim C5, as it is written, fails for the \<^verbatim>\<open>nil\<close> slice and the empty slice, which hold
  the same clusters (none) in the same order: \<^const>\<open>desiredForwardingRule\<close> hands each to
  the codec as it is, and with a codec that writes them differently the descriptions
  differ and the two desired rules do not match.
\<close>

theorem desiredForwardingRule_nil_empty_counterexample:
  "desiredForwardingRule lb1Syncer lineCodec ''lb1'' ''10.0.0.5'' ''proxy-A'' None
     = (None, Inr (lb1Desired\<lparr>Description := ''lb1|null|10.0.0.5''\<rparr>))
   \<and> desiredForwardingRule lb1Syncer lineCodec ''lb1'' ''10.0.0.5'' ''proxy-A'' (Some [])
     = (Some [], Inr (lb1Desired\<lparr>Description := ''lb1|[]|10.0.0.5''\<rparr>))
   \<and> Description (lb1Desired\<lparr>Description := ''lb1|null|10.0.0.5''\<rparr>)
     \<noteq> Description (lb1Desired\<lparr>Description := ''lb1|[]|10.0.0.5''\<rparr>)
   \<and> \<not> fst (forwardingRuleMatches (lb1Desired\<lparr>Description := ''lb1|null|10.0.0.5''\<rparr>)
               (lb1Desired\<lparr>Description := ''lb1|[]|10.0.0.5''\<rparr>))"
  by (simp add: model_defs fixture_defs)

text \<open>
  Claim C5, amended. For two slices of clusters that are both \<^verbatim>\<open>nil\<close>, or both not
  \<^verbatim>\<open>nil\<close> and permutations of each other, and the same load balancer name, IP address
  and target proxy, \<^const>\<open>desiredForwardingRule\<close> gives the same result, whatever the
  codec: the same sorted slice, the same error if the codec fails, and otherwise the
  same description and the same rule, so that each of the two rules matches the other
  under \<^const>\<open>forwardingRuleMatches\<close>.
\<close>

theorem desiredForwardingRule_order_independent:
  assumes "map_option mset clusters1 = map_option mset clusters2"
  shows "desiredForwardingRule s codec lbName ipAddress targetProxyLink clusters1
           = desiredForwardingRule s codec lbName ipAddress targetProxyLink clusters2
         \<and> (\<forall>d1 d2.
              snd (desiredForwardingRule s codec lbName ipAddress targetProxyLink clusters1)
                = Inr d1
              \<and> snd (desiredForwardingRule s codec lbName ipAddress targetProxyLink clusters2)
                = Inr d2
              \<longrightarrow> Description d1 = Description d2 \<and> d1 = d2
                  \<and> fst (forwardingRuleMatches d1 d2) \<and> fst (forwardingRuleMatches d2 d1))"
proof -
  have sorted_same: "sortStrings clusters1 = sortStrings clusters2"
    using assms by (rule sortStrings_of_permutation)
  have same: "desiredForwardingRule s codec lbName ipAddress targetProxyLink clusters1
           = desiredForwardingRule s codec lbName ipAddress targetProxyLink clusters2"
    by (simp add: desiredForwardingRule_def sorted_same)
  have "fst (forwardingRuleMatches d d)"
    if "snd (desiredForwardingRule s codec lbName ipAddress targetProxyLink clusters1) = Inr d"
    for d
  proof -
    have "desiredForwardingRule s codec lbName ipAddress targetProxyLink clusters1
            = (fst (desiredForwardingRule s codec lbName ipAddress targetProxyLink clusters1),
               Inr d)"
      using that by (metis prod.collapse)
    then have "providerAssignedCleared d = d"
      by (rule desiredForwardingRule_fields)
    then show ?thesis
      by (simp add: forwardingRuleMatches_cleared)
  qed
  with same show ?thesis
    by auto
qed

theorem desiredForwardingRule_order_independent_witness:
  "map_option mset (Some [''clusterB'', ''clusterA''])
     = map_option mset (Some [''clusterA'', ''clusterB''])
   \<and> desiredForwardingRule lb1Syncer lineCodec ''lb1'' ''10.0.0.5'' ''proxy-A''
        (Some [''clusterB'', ''clusterA'']) = (Some [''clusterA'', ''clusterB''], Inr lb1Desired)
   \<and> desiredForwardingRule lb1Syncer lineCodec ''lb1'' ''10.0.0.5'' ''proxy-A''
        (Some [''clusterA'', ''clusterB'']) = (Some [''clusterA'', ''clusterB''], Inr lb1Desired)
   \<and> Description lb1Desired = ''lb1|[clusterA,clusterB,]|10.0.0.5''
   \<and> fst (forwardingRuleMatches lb1Desired lb1Desired)"
proof -
  have perm: "map_option mset (Some [''clusterB'', ''clusterA''])
                = map_option mset (Some [''clusterA'', ''clusterB''])"
    by simp
  have d: "desiredForwardingRule lb1Syncer lineCodec ''lb1'' ''10.0.0.5'' ''proxy-A''
        (Some [''clusterA'', ''clusterB'']) = (Some [''clusterA'', ''clusterB''], Inr lb1Desired)"
    by (simp add: model_defs fixture_defs)
  note oi = desiredForwardingRule_order_independent [OF perm, of lb1Syncer lineCodec "''lb1''"
        "''10.0.0.5''" "''proxy-A''"]
  from oi have same: "desiredForwardingRule lb1Syncer lineCodec ''lb1'' ''10.0.0.5'' ''proxy-A''
        (Some [''clusterB'', ''clusterA'']) = (Some [''clusterA'', ''clusterB''], Inr lb1Desired)"
    unfolding d by (rule conjunct1)
  from oi have "fst (forwardingRuleMatches lb1Desired lb1Desired)"
    unfolding same d by simp
  moreover have "Description lb1Desired = ''lb1|[clusterA,clusterB,]|10.0.0.5''"
    by (simp add: lb1Desired_def)
  ultimately show ?thesis
    using perm d same by blast
qed

subsection \<open>Deleting and reading the status\<close>

text \<open>
  Claim C9. \<^const>\<open>DeleteForwardingRules\<close> makes one delete call for the name the namer
  gives, and whatever error that call returns, a not-found error included, is the
  error it returns, unchanged: at this entry point a rule that does not exist is not a
  success. (The delete inside \<^const>\<open>updateForwardingRule\<close> goes through
  \<^const>\<open>IgnoreHTTPNotFound\<close>; this one does not.)
\<close>

theorem DeleteForwardingRules_surfaces_every_error:
  assumes "DeleteGlobalForwardingRule (frp s) (HttpForwardingRuleName (namer s)) (provider w)
             = (Some err, p)"
  shows "DeleteForwardingRules s w
           = (Some err,
              \<lparr>provider = p,
               calls = calls w @ [DeleteCall (HttpForwardingRuleName (namer s))]\<rparr>)"
  using assms by (simp add: DeleteForwardingRules_def frpDelete_def Let_def)

theorem DeleteForwardingRules_surfaces_every_error_witness:
  "DeleteGlobalForwardingRule (frp lb1Syncer) (HttpForwardingRuleName (namer lb1Syncer))
       (provider (world0 []))
     = (Some (GoogleAPIError 404 ''googleapi: got HTTP response code 404''), [])
   \<and> DeleteForwardingRules lb1Syncer (world0 [])
     = (Some (GoogleAPIError 404 ''googleapi: got HTTP response code 404''),
        \<lparr>provider = [], calls = [DeleteCall ''mci1-fw--lb1'']\<rparr>)"
proof -
  have h: "DeleteGlobalForwardingRule (frp lb1Syncer) (HttpForwardingRuleName (namer lb1Syncer))
       (provider (world0 []))
     = (Some (GoogleAPIError 404 ''googleapi: got HTTP response code 404''), [])"
    by (simp add: fixture_defs)
  show ?thesis
    using h DeleteForwardingRules_surfaces_every_error [OF h]
    by (simp add: fixture_defs)
qed

text \<open>
  Claim C8. \<^const>\<open>GetLoadBalancerStatus\<close> fetches the rule under the name the namer
  gives. When the fetch answers with HTTP status 404 it fails with the error ``Load
  balancer \<open>lbName\<close> does not exist''; when the fetch returns a rule whose description
  the codec cannot decode it fails with the error ``error in parsing forwarding rule
  description \<open>\<dots>\<close>. Cannot determine status without it.''; when the description
  decodes it returns exactly the decoded status. The two errors are different for every
  load balancer name and every decoding error, so a caller can tell them apart.
\<close>

theorem GetLoadBalancerStatus_taxonomy:
  "(GetGlobalForwardingRule (frp s) (HttpForwardingRuleName (namer s)) (provider w)
      = (Inl (GoogleAPIError 404 text), p)
    \<longrightarrow> GetLoadBalancerStatus s codec lbName w
        = (Inl (ErrorString (''Load balancer '' @ lbName @ '' does not exist'')),
           \<lparr>provider = p, calls = calls w @ [GetCall (HttpForwardingRuleName (namer s))]\<rparr>))
   \<and> (GetGlobalForwardingRule (frp s) (HttpForwardingRuleName (namer s)) (provider w)
         = (Inr fr, p)
       \<and> FromString codec (Description fr) = Inl e
    \<longrightarrow> GetLoadBalancerStatus s codec lbName w
        = (Inl (ErrorString (''error in parsing forwarding rule description '' @ Error e
                              @ ''. Cannot determine status without it.'')),
           \<lparr>provider = p, calls = calls w @ [GetCall (HttpForwardingRuleName (namer s))]\<rparr>))
   \<and> (GetGlobalForwardingRule (frp s) (HttpForwardingRuleName (namer s)) (provider w)
         = (Inr fr, p)
       \<and> FromString codec (Description fr) = Inr status
    \<longrightarrow> GetLoadBalancerStatus s codec lbName w
        = (Inr status,
           \<lparr>provider = p, calls = calls w @ [GetCall (HttpForwardingRuleName (namer s))]\<rparr>))
   \<and> ErrorString (''Load balancer '' @ lbName @ '' does not exist'')
       \<noteq> ErrorString (''error in parsing forwarding rule description '' @ Error e
                        @ ''. Cannot determine status without it.'')"
  by (simp add: GetLoadBalancerStatus_def frpGet_def Let_def IsHTTPErrorCode_def
        StatusNotFound_def)

theorem GetLoadBalancerStatus_taxonomy_witness:
  "GetLoadBalancerStatus lb1Syncer lineCodec ''lb1'' (world0 [])
     = (Inl (ErrorString ''Load balancer lb1 does not exist''),
        \<lparr>provider = [], calls = [GetCall ''mci1-fw--lb1'']\<rparr>)
   \<and> GetLoadBalancerStatus lb1Syncer lineCodec ''lb1'' (world0 [lb1Rule\<lparr>Description := ''''\<rparr>])
     = (Inl (ErrorString (''error in parsing forwarding rule description ''
                           @ ''unexpected end of JSON input''
                           @ ''. Cannot determine status without it.'')),
        \<lparr>provider = [lb1Rule\<lparr>Description := ''''\<rparr>], calls = [GetCall ''mci1-fw--lb1'']\<rparr>)
   \<and> GetLoadBalancerStatus lb1Syncer lineCodec ''lb1'' (world0 [lb1Rule])
     = (Inr \<lparr>LoadBalancerStatus.Description = ''lb1|[clusterA,clusterB,]|10.0.0.5'',
              LoadBalancerName = ''lb1'', Clusters = None, LoadBalancerStatus.IPAddress = ''''\<rparr>,
        \<lparr>provider = [lb1Rule], calls = [GetCall ''mci1-fw--lb1'']\<rparr>)"
proof -
  have name: "HttpForwardingRuleName (namer lb1Syncer) = ''mci1-fw--lb1''"
    by (simp add: lb1Syncer_def)
  have g1: "GetGlobalForwardingRule (frp lb1Syncer) ''mci1-fw--lb1'' (provider (world0 []))
              = (Inl (GoogleAPIError 404 ''googleapi: got HTTP response code 404''), [])"
    by (simp add: fixture_defs)
  have g2: "GetGlobalForwardingRule (frp lb1Syncer) ''mci1-fw--lb1''
              (provider (world0 [lb1Rule\<lparr>Description := ''''\<rparr>]))
              = (Inr (lb1Rule\<lparr>Description := ''''\<rparr>), [lb1Rule\<lparr>Description := ''''\<rparr>])
            \<and> FromString lineCodec (Description (lb1Rule\<lparr>Description := ''''\<rparr>))
              = Inl (ErrorString ''unexpected end of JSON input'')"
    by (simp add: fixture_defs)
  have g3: "GetGlobalForwardingRule (frp lb1Syncer) ''mci1-fw--lb1'' (provider (world0 [lb1Rule]))
              = (Inr lb1Rule, [lb1Rule])
            \<and> FromString lineCodec (Description lb1Rule)
              = Inr \<lparr>LoadBalancerStatus.Description = ''lb1|[clusterA,clusterB,]|10.0.0.5'',
                     LoadBalancerName = ''lb1'', Clusters = None,
                     LoadBalancerStatus.IPAddress = ''''\<rparr>"
    by (simp add: fixture_defs)
  have c0: "calls (world0 rules) = []" for rules :: "unit ForwardingRule list"
    by (simp add: world0_def)
  from GetLoadBalancerStatus_taxonomy [of lb1Syncer "world0 []" _ "[]" lineCodec "''lb1''"]
  have r1: "GetLoadBalancerStatus lb1Syncer lineCodec ''lb1'' (world0 [])
     = (Inl (ErrorString ''Load balancer lb1 does not exist''),
        \<lparr>provider = [], calls = [GetCall ''mci1-fw--lb1'']\<rparr>)"
    using g1 by (simp add: name c0)
  from GetLoadBalancerStatus_taxonomy [of lb1Syncer "world0 [lb1Rule\<lparr>Description := ''''\<rparr>]" _ _
      lineCodec "''lb1''" "lb1Rule\<lparr>Description := ''''\<rparr>"
      "ErrorString ''unexpected end of JSON input''"]
  have r2: "GetLoadBalancerStatus lb1Syncer lineCodec ''lb1'' (world0 [lb1Rule\<lparr>Description := ''''\<rparr>])
     = (Inl (ErrorString (''error in parsing forwarding rule description ''
                           @ ''unexpected end of JSON input''
                           @ ''. Cannot determine status without it.'')),
        \<lparr>provider = [lb1Rule\<lparr>Description := ''''\<rparr>], calls = [GetCall ''mci1-fw--lb1'']\<rparr>)"
    using g2 by (simp add: name c0)
  from GetLoadBalancerStatus_taxonomy [of lb1Syncer "world0 [lb1Rule]" _ _
      lineCodec "''lb1''" lb1Rule]
  have r3: "GetLoadBalancerStatus lb1Syncer lineCodec ''lb1'' (world0 [lb1Rule])
     = (Inr \<lparr>LoadBalancerStatus.Description = ''lb1|[clusterA,clusterB,]|10.0.0.5'',
              LoadBalancerName = ''lb1'', Clusters = None, LoadBalancerStatus.IPAddress = ''''\<rparr>,
        \<lparr>provider = [lb1Rule], calls = [GetCall ''mci1-fw--lb1'']\<rparr>)"
    using g3 by (simp add: name c0)
  from r1 r2 r3 show ?thesis
    by blast
qed

subsection \<open>Ensuring the rule\<close>

text \<open>
  Claim C7. When the provider's fetch of the rule returns an error, whichever error it
  is, \<^const>\<open>EnsureHttpForwardingRule\<close> goes on to create the desired rule: it makes one
  create call with the desired rule, and what it returns is what that create call
  returns. The fetch error itself, not-found or other, is not returned.
\<close>

theorem Ensure_creates_after_any_fetch_error:
  assumes "desiredForwardingRule s codec lbName ipAddress targetProxyLink clusters = (cs, Inr d)"
      and "GetGlobalForwardingRule (frp s) (Name d) (provider w) = (Inl e, p)"
      and "CreateGlobalForwardingRule (frp s) d p = (r, p')"
  shows "EnsureHttpForwardingRule s codec lbName ipAddress targetProxyLink clusters forceUpdate w
           = (r, cs, \<lparr>provider = p', calls = calls w @ [GetCall (Name d), CreateCall d]\<rparr>)"
  using Ensure_fetch_failed [OF assms(1) assms(2)] assms(3) by simp

theorem Ensure_creates_after_any_fetch_error_witness:
  "desiredForwardingRule lb1Syncer_getFails lineCodec ''lb1'' ''10.0.0.5'' ''proxy-A''
       (Some [''clusterB'', ''clusterA''])
     = ((Some [''clusterA'', ''clusterB'']), Inr lb1Desired)
   \<and> GetGlobalForwardingRule (frp lb1Syncer_getFails) (Name lb1Desired)
        (provider (world0 [lb1Rule]))
     = (Inl (GoogleAPIError 500 ''googleapi: got HTTP response code 500''), [lb1Rule])
   \<and> CreateGlobalForwardingRule (frp lb1Syncer_getFails) lb1Desired [lb1Rule]
     = (Some (GoogleAPIError 409 ''googleapi: got HTTP response code 409''), [lb1Rule])
   \<and> EnsureHttpForwardingRule lb1Syncer_getFails lineCodec ''lb1'' ''10.0.0.5'' ''proxy-A''
        (Some [''clusterB'', ''clusterA'']) False (world0 [lb1Rule])
     = (Some (GoogleAPIError 409 ''googleapi: got HTTP response code 409''),
        (Some [''clusterA'', ''clusterB'']),
        \<lparr>provider = [lb1Rule],
         calls = [GetCall ''mci1-fw--lb1'', CreateCall lb1Desired]\<rparr>)"
proof -
  have h1: "desiredForwardingRule lb1Syncer_getFails lineCodec ''lb1'' ''10.0.0.5'' ''proxy-A''
       (Some [''clusterB'', ''clusterA''])
     = ((Some [''clusterA'', ''clusterB'']), Inr lb1Desired)"
    by (simp add: model_defs fixture_defs)
  have h2: "GetGlobalForwardingRule (frp lb1Syncer_getFails) (Name lb1Desired)
        (provider (world0 [lb1Rule]))
     = (Inl (GoogleAPIError 500 ''googleapi: got HTTP response code 500''), [lb1Rule])"
    by (simp add: fixture_defs)
  have h3: "CreateGlobalForwardingRule (frp lb1Syncer_getFails) lb1Desired [lb1Rule]
     = (Some (GoogleAPIError 409 ''googleapi: got HTTP response code 409''), [lb1Rule])"
    by (simp add: fixture_defs)
  have "Name lb1Desired = ''mci1-fw--lb1''" and "calls (world0 [lb1Rule]) = []"
    by (simp_all add: lb1Desired_def world0_def)
  with Ensure_creates_after_any_fetch_error [OF h1 h2 h3, of False] h1 h2 h3
  show ?thesis
    by simp
qed

text \<open>
  Claim C4. When the fetch returns a live rule that does not match the desired rule and
  \<open>forceUpdate\<close> is false, \<^const>\<open>EnsureHttpForwardingRule\<close> returns the error ``Will not
  overwrite Forwarding Rule without --force'' and the only call it has made is the
  fetch: no create, no delete, no retarget.
\<close>

theorem Ensure_rejects_without_force:
  assumes "desiredForwardingRule s codec lbName ipAddress targetProxyLink clusters = (cs, Inr d)"
      and "GetGlobalForwardingRule (frp s) (Name d) (provider w) = (Inr live, p)"
      and "\<not> fst (forwardingRuleMatches d live)"
  shows "EnsureHttpForwardingRule s codec lbName ipAddress targetProxyLink clusters False w
           = (Some (ErrorString ''Will not overwrite Forwarding Rule without --force''), cs,
              \<lparr>provider = p, calls = calls w @ [GetCall (Name d)]\<rparr>)
         \<and> filter mutating
             (calls (snd (snd (EnsureHttpForwardingRule s codec lbName ipAddress
                                 targetProxyLink clusters False w))))
           = filter mutating (calls w)"
  using Ensure_found_differing_unforced [OF assms] by simp

theorem Ensure_rejects_without_force_witness:
  "desiredForwardingRule lb1Syncer lineCodec ''lb1'' ''10.0.0.5'' ''proxy-A''
       (Some [''clusterB'', ''clusterA''])
     = ((Some [''clusterA'', ''clusterB'']), Inr lb1Desired)
   \<and> GetGlobalForwardingRule (frp lb1Syncer) (Name lb1Desired)
        (provider (world0 [lb1Rule\<lparr>IPAddress := ''10.0.0.9''\<rparr>]))
     = (Inr (lb1Rule\<lparr>IPAddress := ''10.0.0.9''\<rparr>), [lb1Rule\<lparr>IPAddress := ''10.0.0.9''\<rparr>])
   \<and> \<not> fst (forwardingRuleMatches lb1Desired (lb1Rule\<lparr>IPAddress := ''10.0.0.9''\<rparr>))
   \<and> EnsureHttpForwardingRule lb1Syncer lineCodec ''lb1'' ''10.0.0.5'' ''proxy-A''
        (Some [''clusterB'', ''clusterA'']) False (world0 [lb1Rule\<lparr>IPAddress := ''10.0.0.9''\<rparr>])
     = (Some (ErrorString ''Will not overwrite Forwarding Rule without --force''),
        (Some [''clusterA'', ''clusterB'']),
        \<lparr>provider = [lb1Rule\<lparr>IPAddress := ''10.0.0.9''\<rparr>],
         calls = [GetCall ''mci1-fw--lb1'']\<rparr>)"
proof -
  have h1: "desiredForwardingRule lb1Syncer lineCodec ''lb1'' ''10.0.0.5'' ''proxy-A''
       (Some [''clusterB'', ''clusterA''])
     = ((Some [''clusterA'', ''clusterB'']), Inr lb1Desired)"
    by (simp add: model_defs fixture_defs)
  have h2: "GetGlobalForwardingRule (frp lb1Syncer) (Name lb1Desired)
        (provider (world0 [lb1Rule\<lparr>IPAddress := ''10.0.0.9''\<rparr>]))
     = (Inr (lb1Rule\<lparr>IPAddress := ''10.0.0.9''\<rparr>), [lb1Rule\<lparr>IPAddress := ''10.0.0.9''\<rparr>])"
    by (simp add: fixture_defs)
  have h3: "\<not> fst (forwardingRuleMatches lb1Desired (lb1Rule\<lparr>IPAddress := ''10.0.0.9''\<rparr>))"
    by (simp add: model_defs fixture_defs)
  have "Name lb1Desired = ''mci1-fw--lb1''"
    and "calls (world0 [lb1Rule\<lparr>IPAddress := ''10.0.0.9''\<rparr>]) = []"
    by (simp_all add: lb1Desired_def world0_def)
  with Ensure_rejects_without_force [OF h1 h2 h3] h1 h2 h3
  show ?thesis
    by simp
qed

text \<open>
  Claim C2. When the fetch returns a live rule that differs from the desired rule in the
  target and in nothing else but the fields the provider assigns, and \<open>forceUpdate\<close>
  is true, \<^const>\<open>EnsureHttpForwardingRule\<close> makes, after the fetch, exactly one call, a
  \<^verbatim>\<open>SetProxyForGlobalForwardingRule\<close> for the rule's name and the desired target, and
  returns what that call returns: there is no delete and no create.
\<close>

theorem Ensure_retargets_in_place:
  assumes "desiredForwardingRule s codec lbName ipAddress targetProxyLink clusters = (cs, Inr d)"
      and "GetGlobalForwardingRule (frp s) (Name d) (provider w) = (Inr live, p)"
      and "providerAssignedCleared live = d\<lparr>Target := Target live\<rparr>"
      and "Target live \<noteq> Target d"
      and "SetProxyForGlobalForwardingRule (frp s) (Name d) (Target d) p = (r, p')"
  shows "EnsureHttpForwardingRule s codec lbName ipAddress targetProxyLink clusters True w
           = (r, cs,
              \<lparr>provider = p',
               calls = calls w @ [GetCall (Name d), SetProxyCall (Name d) (Target d)]\<rparr>)"
proof -
  have differs: "\<not> fst (forwardingRuleMatches d live)"
  proof
    assume "fst (forwardingRuleMatches d live)"
    then have "providerAssignedCleared live = d"
      by (simp add: forwardingRuleMatches_cleared)
    then have "Target live = Target d"
      by (metis assms(3) ForwardingRule.select_convs(11) ForwardingRule.surjective
            ForwardingRule.update_convs(11))
    with assms(4) show False
      by simp
  qed
  have same: "IPAddress (providerAssignedCleared live) = IPAddress d"
    "PortRange (providerAssignedCleared live) = PortRange d"
    "IPProtocol (providerAssignedCleared live) = IPProtocol d"
    "Description (providerAssignedCleared live) = Description d"
    by (simp_all add: assms(3))
  show ?thesis
    using Ensure_found_differing_forced [OF assms(1) assms(2) differs]
      update_retargets [OF same, of s "\<lparr>provider = p, calls = calls w @ [GetCall (Name d)]\<rparr>"]
      assms(5)
    by simp
qed

theorem Ensure_retargets_in_place_witness:
  "desiredForwardingRule lb1Syncer lineCodec ''lb1'' ''10.0.0.5'' ''proxy-B''
       (Some [''clusterB'', ''clusterA''])
     = ((Some [''clusterA'', ''clusterB'']), Inr (lb1Desired\<lparr>Target := ''proxy-B''\<rparr>))
   \<and> GetGlobalForwardingRule (frp lb1Syncer) (Name (lb1Desired\<lparr>Target := ''proxy-B''\<rparr>))
        (provider (world0 [lb1Rule]))
     = (Inr lb1Rule, [lb1Rule])
   \<and> providerAssignedCleared lb1Rule
     = lb1Desired\<lparr>Target := ''proxy-B''\<rparr>\<lparr>Target := Target lb1Rule\<rparr>
   \<and> Target lb1Rule \<noteq> Target (lb1Desired\<lparr>Target := ''proxy-B''\<rparr>)
   \<and> SetProxyForGlobalForwardingRule (frp lb1Syncer) (Name (lb1Desired\<lparr>Target := ''proxy-B''\<rparr>))
        (Target (lb1Desired\<lparr>Target := ''proxy-B''\<rparr>)) [lb1Rule]
     = (None, [lb1Rule\<lparr>Target := ''proxy-B''\<rparr>])
   \<and> EnsureHttpForwardingRule lb1Syncer lineCodec ''lb1'' ''10.0.0.5'' ''proxy-B''
        (Some [''clusterB'', ''clusterA'']) True (world0 [lb1Rule])
     = (None, (Some [''clusterA'', ''clusterB'']),
        \<lparr>provider = [lb1Rule\<lparr>Target := ''proxy-B''\<rparr>],
         calls = [GetCall ''mci1-fw--lb1'', SetProxyCall ''mci1-fw--lb1'' ''proxy-B'']\<rparr>)"
proof -
  have h1: "desiredForwardingRule lb1Syncer lineCodec ''lb1'' ''10.0.0.5'' ''proxy-B''
       (Some [''clusterB'', ''clusterA''])
     = ((Some [''clusterA'', ''clusterB'']), Inr (lb1Desired\<lparr>Target := ''proxy-B''\<rparr>))"
    by (simp add: model_defs fixture_defs)
  have h2: "GetGlobalForwardingRule (frp lb1Syncer) (Name (lb1Desired\<lparr>Target := ''proxy-B''\<rparr>))
        (provider (world0 [lb1Rule]))
     = (Inr lb1Rule, [lb1Rule])"
    by (simp add: fixture_defs)
  have h3: "providerAssignedCleared lb1Rule
     = lb1Desired\<lparr>Target := ''proxy-B''\<rparr>\<lparr>Target := Target lb1Rule\<rparr>"
    by (simp add: model_defs fixture_defs)
  have h4: "Target lb1Rule \<noteq> Target (lb1Desired\<lparr>Target := ''proxy-B''\<rparr>)"
    by (simp add: fixture_defs)
  have h5: "SetProxyForGlobalForwardingRule (frp lb1Syncer)
        (Name (lb1Desired\<lparr>Target := ''proxy-B''\<rparr>))
        (Target (lb1Desired\<lparr>Target := ''proxy-B''\<rparr>)) [lb1Rule]
     = (None, [lb1Rule\<lparr>Target := ''proxy-B''\<rparr>])"
    by (simp add: fixture_defs)
  have "Name (lb1Desired\<lparr>Target := ''proxy-B''\<rparr>) = ''mci1-fw--lb1''"
    and "Target (lb1Desired\<lparr>Target := ''proxy-B''\<rparr>) = ''proxy-B''"
    and "calls (world0 [lb1Rule]) = []"
    by (simp_all add: lb1Desired_def world0_def)
  with Ensure_retargets_in_place [OF h1 h2 h3 h4 h5] h1 h2 h3 h4 h5
  show ?thesis
    by simp
qed

subsection \<open>Deleting and creating again\<close>

text \<open>
  A live rule of another scheme, with every field that \<^const>\<open>updateForwardingRule\<close>
  compares as desired: the forced call sets the proxy, to the target the rule has
  already, and neither deletes nor creates.
\<close>

lemma Ensure_other_scheme_retargets:
  "EnsureHttpForwardingRule lb1Syncer lineCodec ''lb1'' ''10.0.0.5'' ''proxy-A''
       (Some [''clusterB'', ''clusterA'']) True (world0 [lb1Rule\<lparr>LoadBalancingScheme := ''INTERNAL''\<rparr>])
     = (None, (Some [''clusterA'', ''clusterB'']),
        \<lparr>provider = [lb1Rule\<lparr>LoadBalancingScheme := ''INTERNAL''\<rparr>],
         calls = [GetCall ''mci1-fw--lb1'', SetProxyCall ''mci1-fw--lb1'' ''proxy-A'']\<rparr>)"
  by (simp add: model_defs fixture_defs)

text \<open>
  Claim C3, as it is written, fails at two inputs of a forced call. A live rule that
  differs from the desired one in its scheme, a field other than the target, is neither
  deleted nor created again: the only call after the fetch sets the proxy. And when the
  delete answers 500, the error that comes back is not that error but a new one whose
  text quotes it.
\<close>

theorem Ensure_recreates_claim_counterexample:
  "LoadBalancingScheme (lb1Rule\<lparr>LoadBalancingScheme := ''INTERNAL''\<rparr>)
     \<noteq> LoadBalancingScheme lb1Desired
   \<and> desiredForwardingRule lb1Syncer lineCodec ''lb1'' ''10.0.0.5'' ''proxy-A''
        (Some [''clusterB'', ''clusterA''])
     = ((Some [''clusterA'', ''clusterB'']), Inr lb1Desired)
   \<and> \<not> fst (forwardingRuleMatches lb1Desired (lb1Rule\<lparr>LoadBalancingScheme := ''INTERNAL''\<rparr>))
   \<and> calls (snd (snd (EnsureHttpForwardingRule lb1Syncer lineCodec ''lb1'' ''10.0.0.5''
        ''proxy-A'' (Some [''clusterB'', ''clusterA'']) True
        (world0 [lb1Rule\<lparr>LoadBalancingScheme := ''INTERNAL''\<rparr>]))))
     = [GetCall ''mci1-fw--lb1'', SetProxyCall ''mci1-fw--lb1'' ''proxy-A'']
   \<and> DeleteGlobalForwardingRule
        (frp (lb1Syncer_deleteAnswers
               (GoogleAPIError 500 ''googleapi: got HTTP response code 500'')))
        ''mci1-fw--lb1'' [lb1Rule\<lparr>IPAddress := ''10.0.0.9''\<rparr>]
     = (Some (GoogleAPIError 500 ''googleapi: got HTTP response code 500''), [])
   \<and> fst (EnsureHttpForwardingRule
        (lb1Syncer_deleteAnswers (GoogleAPIError 500 ''googleapi: got HTTP response code 500''))
        lineCodec ''lb1'' ''10.0.0.5'' ''proxy-A'' (Some [''clusterB'', ''clusterA'']) True
        (world0 [lb1Rule\<lparr>IPAddress := ''10.0.0.9''\<rparr>]))
     = Some (ErrorString
        ''error in deleting existing forwarding rule mci1-fw--lb1: googleapi: got HTTP response code 500'')
   \<and> fst (EnsureHttpForwardingRule
        (lb1Syncer_deleteAnswers (GoogleAPIError 500 ''googleapi: got HTTP response code 500''))
        lineCodec ''lb1'' ''10.0.0.5'' ''proxy-A'' (Some [''clusterB'', ''clusterA'']) True
        (world0 [lb1Rule\<lparr>IPAddress := ''10.0.0.9''\<rparr>]))
     \<noteq> Some (GoogleAPIError 500 ''googleapi: got HTTP response code 500'')"
  by (simp add: model_defs fixture_defs)

text \<open>
  Claim C3, amended. When the fetch returns a live rule that differs from the desired
  rule in the IP address, the port range, the protocol or the description, and
  \<open>forceUpdate\<close> is true, \<^const>\<open>EnsureHttpForwardingRule\<close> makes one delete call for
  the rule's name. When that call succeeds or answers with HTTP status 404, one create
  call with the whole desired rule follows and its result is returned. When it returns
  any other error, no create call is made and the error returned is a new one, with the
  text ``error in deleting existing forwarding rule \<open>name\<close>: '' followed by the text of
  the delete error.
\<close>

theorem Ensure_deletes_then_creates:
  assumes "desiredForwardingRule s codec lbName ipAddress targetProxyLink clusters = (cs, Inr d)"
      and "GetGlobalForwardingRule (frp s) (Name d) (provider w) = (Inr live, p)"
      and "IPAddress live \<noteq> IPAddress d \<or> PortRange live \<noteq> PortRange d
           \<or> IPProtocol live \<noteq> IPProtocol d \<or> Description live \<noteq> Description d"
      and "DeleteGlobalForwardingRule (frp s) (Name d) p = (r, p')"
  shows "(r = None \<or> (\<exists>text. r = Some (GoogleAPIError 404 text)) \<longrightarrow>
            EnsureHttpForwardingRule s codec lbName ipAddress targetProxyLink clusters True w
              = (fst (CreateGlobalForwardingRule (frp s) d p'), cs,
                 \<lparr>provider = snd (CreateGlobalForwardingRule (frp s) d p'),
                  calls = calls w @ [GetCall (Name d), DeleteCall (Name d), CreateCall d]\<rparr>))
         \<and> (\<forall>err. r = Some err \<and> (\<forall>text. err \<noteq> GoogleAPIError 404 text) \<longrightarrow>
            EnsureHttpForwardingRule s codec lbName ipAddress targetProxyLink clusters True w
              = (Some (ErrorString (''error in deleting existing forwarding rule '' @ Name d
                                     @ '': '' @ Error err)), cs,
                 \<lparr>provider = p',
                  calls = calls w @ [GetCall (Name d), DeleteCall (Name d)]\<rparr>))"
proof -
  let ?w = "\<lparr>provider = p, calls = calls w @ [GetCall (Name d)]\<rparr>"
  have cleared_differs:
    "IPAddress (providerAssignedCleared live) \<noteq> IPAddress d
     \<or> PortRange (providerAssignedCleared live) \<noteq> PortRange d
     \<or> IPProtocol (providerAssignedCleared live) \<noteq> IPProtocol d
     \<or> Description (providerAssignedCleared live) \<noteq> Description d"
    using assms(3) by (simp add: providerAssignedCleared_def)
  then have "providerAssignedCleared live \<noteq> d"
    by auto
  then have differs: "\<not> fst (forwardingRuleMatches d live)"
    by (simp add: forwardingRuleMatches_cleared)
  have del: "DeleteGlobalForwardingRule (frp s) (Name d) (provider ?w) = (r, p')"
    using assms(4) by simp
  note ensure = Ensure_found_differing_forced [OF assms(1) assms(2) differs]
  note update = update_recreates [OF cleared_differs del]
  have gone: "IgnoreHTTPNotFound r = None"
    if "r = None \<or> (\<exists>text. r = Some (GoogleAPIError 404 text))"
    using that by (auto simp add: IgnoreHTTPNotFound_cases)
  have other: "IgnoreHTTPNotFound r = Some err"
    if "r = Some err" and "\<forall>text. err \<noteq> GoogleAPIError 404 text" for err
    using that by (cases err) (auto simp add: IgnoreHTTPNotFound_cases)
  show ?thesis
  proof (intro conjI impI allI)
    assume "r = None \<or> (\<exists>text. r = Some (GoogleAPIError 404 text))"
    then have "IgnoreHTTPNotFound r = None"
      by (rule gone)
    with ensure update
    show "EnsureHttpForwardingRule s codec lbName ipAddress targetProxyLink clusters True w
              = (fst (CreateGlobalForwardingRule (frp s) d p'), cs,
                 \<lparr>provider = snd (CreateGlobalForwardingRule (frp s) d p'),
                  calls = calls w @ [GetCall (Name d), DeleteCall (Name d), CreateCall d]\<rparr>)"
      by simp
  next
    fix err
    assume "r = Some err \<and> (\<forall>text. err \<noteq> GoogleAPIError 404 text)"
    then have "IgnoreHTTPNotFound r = Some err"
      using other by blast
    with ensure update
    show "EnsureHttpForwardingRule s codec lbName ipAddress targetProxyLink clusters True w
              = (Some (ErrorString (''error in deleting existing forwarding rule '' @ Name d
                                     @ '': '' @ Error err)), cs,
                 \<lparr>provider = p',
                  calls = calls w @ [GetCall (Name d), DeleteCall (Name d)]\<rparr>)"
      by simp
  qed
qed

theorem Ensure_deletes_then_creates_witness:
  "EnsureHttpForwardingRule lb1Syncer lineCodec ''lb1'' ''10.0.0.5'' ''proxy-A''
       (Some [''clusterB'', ''clusterA'']) True (world0 [lb1Rule\<lparr>IPAddress := ''10.0.0.9''\<rparr>])
     = (None, (Some [''clusterA'', ''clusterB'']),
        \<lparr>provider = [assignedByProvider lb1Desired],
         calls = [GetCall ''mci1-fw--lb1'', DeleteCall ''mci1-fw--lb1'', CreateCall lb1Desired]\<rparr>)
   \<and> EnsureHttpForwardingRule
        (lb1Syncer_deleteAnswers (GoogleAPIError 404 ''googleapi: got HTTP response code 404''))
        lineCodec ''lb1'' ''10.0.0.5'' ''proxy-A''
        (Some [''clusterB'', ''clusterA'']) True (world0 [lb1Rule\<lparr>IPAddress := ''10.0.0.9''\<rparr>])
     = (None, (Some [''clusterA'', ''clusterB'']),
        \<lparr>provider = [assignedByProvider lb1Desired],
         calls = [GetCall ''mci1-fw--lb1'', DeleteCall ''mci1-fw--lb1'', CreateCall lb1Desired]\<rparr>)
   \<and> EnsureHttpForwardingRule
        (lb1Syncer_deleteAnswers (GoogleAPIError 500 ''googleapi: got HTTP response code 500''))
        lineCodec ''lb1'' ''10.0.0.5'' ''proxy-A''
        (Some [''clusterB'', ''clusterA'']) True (world0 [lb1Rule\<lparr>IPAddress := ''10.0.0.9''\<rparr>])
     = (Some (ErrorString
          ''error in deleting existing forwarding rule mci1-fw--lb1: googleapi: got HTTP response code 500''),
        (Some [''clusterA'', ''clusterB'']),
        \<lparr>provider = [],
         calls = [GetCall ''mci1-fw--lb1'', DeleteCall ''mci1-fw--lb1'']\<rparr>)"
proof -
  let ?live = "lb1Rule\<lparr>IPAddress := ''10.0.0.9''\<rparr>"
  let ?e404 = "GoogleAPIError 404 ''googleapi: got HTTP response code 404''"
  let ?e500 = "GoogleAPIError 500 ''googleapi: got HTTP response code 500''"
  have facts: "Name lb1Desired = ''mci1-fw--lb1''" "calls (world0 [?live]) = []"
    "provider (world0 [?live]) = [?live]"
    by (simp_all add: lb1Desired_def world0_def)
  have differs: "IPAddress ?live \<noteq> IPAddress lb1Desired \<or> PortRange ?live \<noteq> PortRange lb1Desired
           \<or> IPProtocol ?live \<noteq> IPProtocol lb1Desired
           \<or> Description ?live \<noteq> Description lb1Desired"
    by (simp add: fixture_defs)
  have d1: "desiredForwardingRule lb1Syncer lineCodec ''lb1'' ''10.0.0.5'' ''proxy-A''
       (Some [''clusterB'', ''clusterA'']) = ((Some [''clusterA'', ''clusterB'']), Inr lb1Desired)"
    by (simp add: model_defs fixture_defs)
  have g1: "GetGlobalForwardingRule (frp lb1Syncer) (Name lb1Desired) (provider (world0 [?live]))
              = (Inr ?live, [?live])"
    by (simp add: fixture_defs)
  have x1: "DeleteGlobalForwardingRule (frp lb1Syncer) (Name lb1Desired) [?live] = (None, [])"
    by (simp add: fixture_defs)
  have c1: "CreateGlobalForwardingRule (frp lb1Syncer) lb1Desired []
              = (None, [assignedByProvider lb1Desired])"
    by (simp add: fixture_defs)
  have r1: "EnsureHttpForwardingRule lb1Syncer lineCodec ''lb1'' ''10.0.0.5'' ''proxy-A''
       (Some [''clusterB'', ''clusterA'']) True (world0 [?live])
     = (None, (Some [''clusterA'', ''clusterB'']),
        \<lparr>provider = [assignedByProvider lb1Desired],
         calls = [GetCall ''mci1-fw--lb1'', DeleteCall ''mci1-fw--lb1'', CreateCall lb1Desired]\<rparr>)"
    using Ensure_deletes_then_creates [OF d1 g1 differs x1]
    by (simp add: facts c1)
  have d2: "desiredForwardingRule (lb1Syncer_deleteAnswers e) lineCodec ''lb1'' ''10.0.0.5''
       ''proxy-A'' (Some [''clusterB'', ''clusterA'']) = ((Some [''clusterA'', ''clusterB'']), Inr lb1Desired)"
    for e
    by (simp add: model_defs fixture_defs)
  have g2: "GetGlobalForwardingRule (frp (lb1Syncer_deleteAnswers e)) (Name lb1Desired)
              (provider (world0 [?live])) = (Inr ?live, [?live])" for e
    by (simp add: fixture_defs)
  have x2: "DeleteGlobalForwardingRule (frp (lb1Syncer_deleteAnswers e)) (Name lb1Desired) [?live]
              = (Some e, [])" for e
    by (simp add: fixture_defs)
  have c2: "CreateGlobalForwardingRule (frp (lb1Syncer_deleteAnswers e)) lb1Desired []
              = (None, [assignedByProvider lb1Desired])" for e
    by (simp add: fixture_defs)
  have r2: "EnsureHttpForwardingRule (lb1Syncer_deleteAnswers ?e404) lineCodec ''lb1''
       ''10.0.0.5'' ''proxy-A'' (Some [''clusterB'', ''clusterA'']) True (world0 [?live])
     = (None, (Some [''clusterA'', ''clusterB'']),
        \<lparr>provider = [assignedByProvider lb1Desired],
         calls = [GetCall ''mci1-fw--lb1'', DeleteCall ''mci1-fw--lb1'', CreateCall lb1Desired]\<rparr>)"
    using Ensure_deletes_then_creates [OF d2 g2 differs x2, of ?e404]
    by (simp add: facts c2)
  have r3: "EnsureHttpForwardingRule (lb1Syncer_deleteAnswers ?e500) lineCodec ''lb1''
       ''10.0.0.5'' ''proxy-A'' (Some [''clusterB'', ''clusterA'']) True (world0 [?live])
     = (Some (ErrorString
          ''error in deleting existing forwarding rule mci1-fw--lb1: googleapi: got HTTP response code 500''),
        (Some [''clusterA'', ''clusterB'']),
        \<lparr>provider = [],
         calls = [GetCall ''mci1-fw--lb1'', DeleteCall ''mci1-fw--lb1'']\<rparr>)"
    using Ensure_deletes_then_creates [OF d2 g2 differs x2, of ?e500]
    by (simp add: facts)
  from r1 r2 r3 show ?thesis
    by blast
qed

subsection \<open>Calling twice\<close>











end
